theory Spec2Isabelle
  imports Complex_Main "HOL-Library.Word"
begin

section \<open>The image processor facade of pj_tflite_pose_movenet\<close>

text \<open>
  A shallow embedding of \<^verbatim>\<open>image_processor.cpp\<close> and of the declarations of
  \<^verbatim>\<open>pose_engine.h\<close>. The facade keeps one global, the owning pointer
  \<^verbatim>\<open>s_pose_engine\<close>, and offers \<^verbatim>\<open>Initialize\<close>, \<^verbatim>\<open>Finalize\<close>,
  \<^verbatim>\<open>Command\<close> and \<^verbatim>\<open>Process\<close>. The global is passed in and returned
  explicitly. The member functions of \<^verbatim>\<open>PoseEngine\<close> are declared in the header
  and defined elsewhere: they are parameters of the model. The OpenCV drawing
  primitives are an external library: a frame records the drawing calls made on it.
\<close>

subsection \<open>Data\<close>

type_synonym int32_t = "32 word"

text \<open>The anonymous enum of \<^verbatim>\<open>PoseEngine\<close>.\<close>

definition kRetOk :: int32_t where
  "kRetOk = 0"

definition kRetErr :: int32_t where
  "kRetErr = - 1"

text \<open>
  \<^verbatim>\<open>PoseEngine::Result_\<close>. A \<^verbatim>\<open>float\<close> or \<^verbatim>\<open>double\<close> is modelled by the
  real number it denotes (finite values only).
\<close>

record Result_ =
  pose_scores :: "real list"
  pose_keypoint_scores :: "real list list"
  pose_keypoint_coords :: "(real \<times> real) list list"
  time_pre_process :: real
  time_inference :: real
  time_post_process :: real

text \<open>
  \<^verbatim>\<open>ImageProcessor::InputParam\<close> and \<^verbatim>\<open>ImageProcessor::Result\<close>, with the fields
  the facade reads and writes. The three fields of the result carry the names of the
  source with the prefix \<open>result_\<close>, the plain names being taken by \<open>Result_\<close>.
\<close>

record InputParam =
  work_dir :: string
  num_threads :: int32_t

record Result =
  result_time_pre_process :: real
  result_time_inference :: real
  result_time_post_process :: real

text \<open>
  A \<^verbatim>\<open>cv::Point\<close> is a pair of \<^verbatim>\<open>int\<close>, a colour is whatever
  \<^verbatim>\<open>CommonHelper::CreateCvColor\<close> makes of its three arguments. A drawing call is
  recorded with its arguments: \<^verbatim>\<open>cv::line(mat, p0, p1, colour, thickness)\<close>,
  \<^verbatim>\<open>cv::circle(mat, centre, radius, colour, thickness)\<close>, and the one
  \<^verbatim>\<open>CommonHelper::DrawText\<close> call of \<^verbatim>\<open>DrawFps\<close>, of which the inference time
  it prints and the position are kept (the frame rate it prints is read from the
  steady clock).
\<close>

type_synonym Point = "int32_t \<times> int32_t"

datatype Scalar = CreateCvColor int int int

datatype draw_call =
    cv_line Point Point Scalar int
  | cv_circle Point int Scalar int
  | DrawText real Point

text \<open>
  \<^verbatim>\<open>cv::Mat\<close>: the size, the pixel bytes the caller handed over, and the drawing
  calls made on them since, oldest first.
\<close>

record Mat =
  cols :: int
  rows :: int
  data :: "8 word list"
  overlay :: "draw_call list"

text \<open>
  \<^verbatim>\<open>PoseEngine\<close>: the constructor and the three member functions, over a type
  \<open>'e\<close> of engine objects. \<^verbatim>\<open>Process\<close> takes the frame by const reference and
  fills a default-constructed \<^verbatim>\<open>Result\<close>.
\<close>

record 'e PoseEngine =
  PoseEngine_new :: 'e
  PoseEngine_Initialize :: "string \<Rightarrow> int32_t \<Rightarrow> 'e \<Rightarrow> int32_t \<times> 'e"
  PoseEngine_Finalize :: "'e \<Rightarrow> int32_t \<times> 'e"
  PoseEngine_Process :: "Mat \<Rightarrow> 'e \<Rightarrow> int32_t \<times> Result_ \<times> 'e"

text \<open>The global variable: \<open>None\<close> is the empty \<^verbatim>\<open>unique_ptr\<close>.\<close>

record 'e global =
  s_pose_engine :: "'e option"

text \<open>
  Every failing return of the facade is \<^verbatim>\<open>return -1\<close>; the branches differ in what
  they print. An error names the branch:
  \<^item> \<open>NotInitialized\<close>: \<^verbatim>\<open>PRINT_E("Not initialized\n"); return -1;\<close>
  \<^item> \<open>AlreadyInitialized\<close>: \<^verbatim>\<open>PRINT_E("Already initialized\n"); return -1;\<close>
  \<^item> \<open>UnsupportedCommand\<close>: \<^verbatim>\<open>PRINT_E("command(%d) is not supported\n", cmd); return -1;\<close>
  \<^item> \<open>EngineFailed\<close>: the engine's call did not return \<^verbatim>\<open>kRetOk\<close>; \<^verbatim>\<open>return -1;\<close>
\<close>

datatype error = NotInitialized | AlreadyInitialized | UnsupportedCommand | EngineFailed

type_synonym status = "error + unit"

fun ret_code :: "status \<Rightarrow> int32_t" where
  "ret_code (Inl e) = - 1"
| "ret_code (Inr u) = 0"

subsection \<open>Initialize, Finalize, Command\<close>

definition Initialize :: "'e PoseEngine \<Rightarrow> InputParam \<Rightarrow> 'e global \<Rightarrow> status \<times> 'e global" where
  "Initialize eng input_param s =
     (case s_pose_engine s of
        Some e \<Rightarrow> (Inl AlreadyInitialized, s)
      | None \<Rightarrow>
          (case PoseEngine_Initialize eng (work_dir input_param) (num_threads input_param)
                  (PoseEngine_new eng) of
             (ret, e) \<Rightarrow>
               if ret \<noteq> kRetOk then (Inl EngineFailed, s\<lparr>s_pose_engine := Some e\<rparr>)
               else (Inr (), s\<lparr>s_pose_engine := Some e\<rparr>)))"

definition Finalize :: "'e PoseEngine \<Rightarrow> 'e global \<Rightarrow> status \<times> 'e global" where
  "Finalize eng s =
     (case s_pose_engine s of
        None \<Rightarrow> (Inl NotInitialized, s)
      | Some e \<Rightarrow>
          (case PoseEngine_Finalize eng e of
             (ret, e') \<Rightarrow>
               if ret \<noteq> kRetOk then (Inl EngineFailed, s\<lparr>s_pose_engine := Some e'\<rparr>)
               else (Inr (), s\<lparr>s_pose_engine := Some e'\<rparr>)))"

text \<open>The \<^verbatim>\<open>switch\<close> has the labels \<^verbatim>\<open>case 0:\<close> and \<^verbatim>\<open>default:\<close> on one body.\<close>

definition Command :: "int32_t \<Rightarrow> 'e global \<Rightarrow> status \<times> 'e global" where
  "Command cmd s =
     (case s_pose_engine s of
        None \<Rightarrow> (Inl NotInitialized, s)
      | Some e \<Rightarrow>
          (if cmd = 0 then (Inl UnsupportedCommand, s)
           else (Inl UnsupportedCommand, s)))"

subsection \<open>Undefined behaviour\<close>

text \<open>
  \<^verbatim>\<open>Process\<close> subscripts vectors with \<^verbatim>\<open>operator[]\<close>, which checks nothing, and
  converts \<^verbatim>\<open>float\<close> to \<^verbatim>\<open>int32_t\<close>, which is undefined when the truncated value
  does not fit. Both are branches of the model: a computation either returns a value or
  is undefined, with the fault that made it so.
\<close>

datatype fault = IndexOutOfRange | FloatToIntOverflow

datatype 'a outcome = Returns 'a | Undefined fault

fun and_then :: "'a outcome \<Rightarrow> ('a \<Rightarrow> 'b outcome) \<Rightarrow> 'b outcome" where
  "and_then (Returns x) f = f x"
| "and_then (Undefined u) f = Undefined u"

text \<open>
  \<^verbatim>\<open>v[i]\<close> for an \<^verbatim>\<open>int32_t\<close> index: the index is converted to \<^verbatim>\<open>size_t\<close>, so a
  negative one lands beyond every vector's size.
\<close>

definition subscript :: "'a list \<Rightarrow> int32_t \<Rightarrow> 'a outcome" where
  "subscript v i =
     (if 0 \<le> sint i \<and> nat (sint i) < length v then Returns (v ! nat (sint i))
      else Undefined IndexOutOfRange)"

text \<open>The implicit conversion of a \<^verbatim>\<open>float\<close> to \<^verbatim>\<open>int32_t\<close>: towards zero.\<close>

definition float_trunc :: "real \<Rightarrow> int" where
  "float_trunc x = (if 0 \<le> x then \<lfloor>x\<rfloor> else \<lceil>x\<rceil>)"

definition float_to_int32 :: "real \<Rightarrow> int32_t outcome" where
  "float_to_int32 x =
     (if - (2 ^ 31) \<le> float_trunc x \<and> float_trunc x < 2 ^ 31 then Returns (word_of_int (float_trunc x))
      else Undefined FloatToIntOverflow)"

subsection \<open>Drawing\<close>

text \<open>
  \<^verbatim>\<open>constexpr float score_threshold = 0.2F\<close>: the single-precision number nearest to
  \<open>0.2\<close>, which is \<open>13421773 / 2 ^ 26\<close>.
\<close>

definition score_threshold :: real where
  "score_threshold = 13421773 / 67108864"

definition jointLineList :: "(int32_t \<times> int32_t) list" where
  "jointLineList =
     [(0, 2), (2, 4), (0, 1), (1, 3),
      (6, 5), (5, 11), (11, 12), (12, 6),
      (6, 8), (8, 10), (5, 7), (7, 9),
      (12, 14), (14, 16), (11, 13), (13, 15)]"

definition draw :: "Mat \<Rightarrow> draw_call \<Rightarrow> Mat" where
  "draw mat c = mat\<lparr>overlay := overlay mat @ [c]\<rparr>"

text \<open>
  \<^verbatim>\<open>DrawFps\<close> ignores its position, scale, thickness and colour parameters and
  draws the text at \<^verbatim>\<open>cv::Point(0, 0)\<close>.
\<close>

definition DrawFps :: "Mat \<Rightarrow> real \<Rightarrow> Mat" where
  "DrawFps mat time_inference' = draw mat (DrawText time_inference' (0, 0))"

text \<open>
  The body of the loop over \<^verbatim>\<open>jointLineList\<close>; \<^verbatim>\<open>&&\<close> evaluates its right side
  only when the left holds.
\<close>

definition draw_joint_line ::
  "real list \<Rightarrow> (real \<times> real) list \<Rightarrow> int32_t \<times> int32_t \<Rightarrow> Mat \<Rightarrow> Mat outcome" where
  "draw_joint_line score_list part_list jointLine mat =
     and_then (subscript score_list (fst jointLine)) (\<lambda>score0.
       if score0 \<ge> score_threshold then
         and_then (subscript score_list (snd jointLine)) (\<lambda>score1.
           if score1 \<ge> score_threshold then
             and_then (subscript part_list (fst jointLine)) (\<lambda>p0.
             and_then (float_to_int32 (fst p0)) (\<lambda>x0.
             and_then (subscript part_list (fst jointLine)) (\<lambda>q0.
             and_then (float_to_int32 (snd q0)) (\<lambda>y0.
             and_then (subscript part_list (snd jointLine)) (\<lambda>p1.
             and_then (float_to_int32 (fst p1)) (\<lambda>x1.
             and_then (subscript part_list (snd jointLine)) (\<lambda>q1.
             and_then (float_to_int32 (snd q1)) (\<lambda>y1.
               Returns (draw mat (cv_line (x0, y0) (x1, y1) (CreateCvColor 200 200 200) 2))))))))))
           else Returns mat)
       else Returns mat)"

text \<open>The body of the loop over the keypoints.\<close>

definition draw_keypoint ::
  "real list \<Rightarrow> (real \<times> real) list \<Rightarrow> int32_t \<Rightarrow> Mat \<Rightarrow> Mat outcome" where
  "draw_keypoint score_list part_list i mat =
     and_then (subscript score_list i) (\<lambda>score.
       if score \<ge> score_threshold then
         and_then (subscript part_list i) (\<lambda>p.
         and_then (float_to_int32 (fst p)) (\<lambda>x.
         and_then (subscript part_list i) (\<lambda>q.
         and_then (float_to_int32 (snd q)) (\<lambda>y.
           Returns (draw mat (cv_circle (x, y) 5 (CreateCvColor 0 255 0) (- 1)))))))
       else Returns mat)"

text \<open>\<^verbatim>\<open>for (const auto& x : xs) body\<close>, stopping at the first fault.\<close>

fun for_each :: "('a \<Rightarrow> Mat \<Rightarrow> Mat outcome) \<Rightarrow> 'a list \<Rightarrow> Mat \<Rightarrow> Mat outcome" where
  "for_each body [] mat = Returns mat"
| "for_each body (x # xs) mat = and_then (body x mat) (for_each body xs)"

text \<open>
  \<^verbatim>\<open>for (int32_t i = i0; i < n; i++) body\<close>, with the signed comparison of
  \<^verbatim>\<open>int32_t\<close>.
\<close>

function for_loop ::
  "(int32_t \<Rightarrow> Mat \<Rightarrow> Mat outcome) \<Rightarrow> int32_t \<Rightarrow> int32_t \<Rightarrow> Mat \<Rightarrow> Mat outcome" where
  "for_loop body i n mat =
     (if sint i < sint n then
        (case body i mat of
           Undefined u \<Rightarrow> Undefined u
         | Returns mat' \<Rightarrow> for_loop body (i + 1) n mat')
      else Returns mat)"
  by pat_completeness auto

termination
proof (relation "measure (\<lambda>(body, i, n, mat). nat (sint n - sint i))")
  show "wf (measure (\<lambda>(body, i, n, mat). nat (sint n - sint i)))"
    by simp
next
  fix body :: "int32_t \<Rightarrow> Mat \<Rightarrow> Mat outcome" and i n :: int32_t and mat x1 :: Mat
  assume less: "sint i < sint n"
  have "sint n < 2 ^ 31"
    using sint_lt [of n] by simp
  moreover have "- (2 ^ 31) \<le> sint i"
    using sint_ge [of i] by simp
  ultimately have "signed_take_bit 31 (sint i + 1) = sint i + 1"
    using less by (intro signed_take_bit_int_eq_self) auto
  then have "sint (i + 1) = sint i + 1"
    by (simp add: sint_word_ariths)
  then show "((body, i + 1, n, x1), (body, i, n, mat))
      \<in> measure (\<lambda>(body, i, n, mat). nat (sint n - sint i))"
    using less by simp
qed

declare for_loop.simps [simp del]

subsection \<open>Process\<close>

text \<open>
  On a failing return the frame, the caller's result and (before the engine is called)
  the global are as they were. \<^verbatim>\<open>part_num\<close> is the size of the coordinate vector
  cast to \<^verbatim>\<open>int32_t\<close>.
\<close>

definition Process ::
  "'e PoseEngine \<Rightarrow> Mat \<Rightarrow> Result \<Rightarrow> 'e global \<Rightarrow> (status \<times> Mat \<times> Result \<times> 'e global) outcome" where
  "Process eng mat result s =
     (case s_pose_engine s of
        None \<Rightarrow> Returns (Inl NotInitialized, mat, result, s)
      | Some e \<Rightarrow>
          (case PoseEngine_Process eng mat e of
             (ret, pose_result, e') \<Rightarrow>
               if ret \<noteq> kRetOk then
                 Returns (Inl EngineFailed, mat, result, s\<lparr>s_pose_engine := Some e'\<rparr>)
               else
                 and_then (subscript (pose_keypoint_scores pose_result) 0) (\<lambda>score_list.
                 and_then (subscript (pose_keypoint_coords pose_result) 0) (\<lambda>part_list.
                 let part_num = (word_of_nat (length part_list) :: int32_t) in
                 and_then (for_each (draw_joint_line score_list part_list) jointLineList mat) (\<lambda>mat1.
                 and_then (for_loop (draw_keypoint score_list part_list) 0 part_num mat1) (\<lambda>mat2.
                   Returns (Inr (),
                     DrawFps mat2 (time_inference pose_result),
                     result\<lparr>result_time_pre_process := time_pre_process pose_result,
                            result_time_inference := time_inference pose_result,
                            result_time_post_process := time_post_process pose_result\<rparr>,
                     s\<lparr>s_pose_engine := Some e'\<rparr>)))))))"

subsection \<open>The drawing calls, in closed form\<close>

text \<open>
  The words in which the theorems below say what \<^verbatim>\<open>Process\<close> draws. Keypoint \<open>i\<close>
  clears the threshold when the score vector has an element \<open>i\<close> and it is at least
  \<open>score_threshold\<close>. \<open>point_of\<close> is the \<^verbatim>\<open>cv::Point\<close> made of a coordinate pair
  by the conversion to \<^verbatim>\<open>int32_t\<close>; \<open>joint_line_call\<close> and \<open>marker_call\<close> are
  the calls the two loops make for a table entry and for a keypoint; \<open>indices n\<close>
  are the values the counter of \<^verbatim>\<open>for (int32_t i = 0; i < n; i++)\<close> takes.
\<close>

definition clears :: "real list \<Rightarrow> int32_t \<Rightarrow> bool" where
  "clears score_list i =
     (case subscript score_list i of
        Returns score \<Rightarrow> score \<ge> score_threshold
      | Undefined u \<Rightarrow> False)"

definition point_of :: "real \<times> real \<Rightarrow> Point" where
  "point_of p = (word_of_int (float_trunc (fst p)), word_of_int (float_trunc (snd p)))"

definition joint_line_call :: "(real \<times> real) list \<Rightarrow> int32_t \<times> int32_t \<Rightarrow> draw_call" where
  "joint_line_call part_list jointLine =
     cv_line (point_of (part_list ! nat (sint (fst jointLine))))
       (point_of (part_list ! nat (sint (snd jointLine)))) (CreateCvColor 200 200 200) 2"

definition marker_call :: "(real \<times> real) list \<Rightarrow> int32_t \<Rightarrow> draw_call" where
  "marker_call part_list i =
     cv_circle (point_of (part_list ! nat (sint i))) 5 (CreateCvColor 0 255 0) (- 1)"

definition indices :: "int32_t \<Rightarrow> int32_t list" where
  "indices n = map word_of_int [0 .. sint n - 1]"

text \<open>A coordinate fits when its conversion to \<^verbatim>\<open>int32_t\<close> is defined.\<close>

definition fits :: "real \<Rightarrow> bool" where
  "fits x \<longleftrightarrow> - (2 ^ 31) \<le> float_trunc x \<and> float_trunc x < 2 ^ 31"

subsection \<open>Example inputs\<close>

text \<open>
  Engines, frames and bodies on which the theorems below are evaluated. An engine
  object of \<open>stub_engine\<close> is the number of calls it has served; its \<^verbatim>\<open>Process\<close>
  answers with the pose it is given. \<open>failing_engine\<close> fails to initialize.
\<close>

definition pose_of :: "real list \<Rightarrow> (real \<times> real) list \<Rightarrow> Result_" where
  "pose_of score_list part_list =
     \<lparr>pose_scores = [1], pose_keypoint_scores = [score_list],
      pose_keypoint_coords = [part_list],
      time_pre_process = 1, time_inference = 2, time_post_process = 3\<rparr>"

definition stub_engine :: "Result_ \<Rightarrow> nat PoseEngine" where
  "stub_engine pose =
     \<lparr>PoseEngine_new = 0,
      PoseEngine_Initialize = (\<lambda>dir threads e. (kRetOk, Suc e)),
      PoseEngine_Finalize = (\<lambda>e. (kRetOk, Suc e)),
      PoseEngine_Process = (\<lambda>mat e. (kRetOk, pose, Suc e))\<rparr>"

definition failing_engine :: "nat PoseEngine" where
  "failing_engine =
     \<lparr>PoseEngine_new = 0,
      PoseEngine_Initialize = (\<lambda>dir threads e. (kRetErr, Suc e)),
      PoseEngine_Finalize = (\<lambda>e. (kRetOk, Suc e)),
      PoseEngine_Process = (\<lambda>mat e. (kRetErr, pose_of [] [], Suc e))\<rparr>"

definition still_pose :: Result_ where
  "still_pose = pose_of (replicate 17 0) (replicate 17 (1 / 2, 1 / 2))"

text \<open>
  In \<open>centre_pose\<close> all keypoints sit at the normalized centre \<open>(0.5, 0.5)\<close> and the
  keypoints 0 and 1 score. \<open>spread\<close> are seventeen keypoints with distinct
  coordinates; in \<open>mixed_pose\<close> keypoint 3 scores
  \<open>score_threshold\<close> exactly and keypoint 2 scores the single-precision number just
  below it; in \<open>pair_pose\<close> only the keypoints 5 and 7 score.
\<close>

definition spread :: "(real \<times> real) list" where
  "spread = map (\<lambda>i. (10 * real i + 1 / 2, 20 * real i + 3 / 4)) [0..<17]"

definition centre_pose :: Result_ where
  "centre_pose =
     pose_of [1, 1, 0, 0, 0, 0, 0, 0, 0, 0, 0, 0, 0, 0, 0, 0, 0] (replicate 17 (1 / 2, 1 / 2))"

definition mixed_pose :: Result_ where
  "mixed_pose =
     pose_of [1, 1, 13421772 / 67108864, 13421773 / 67108864, 0, 0, 0, 0, 0, 0, 0, 0, 0, 0, 0, 0, 1]
       spread"

definition pair_pose :: Result_ where
  "pair_pose = pose_of [0, 0, 0, 0, 0, 1, 0, 1, 0, 0, 0, 0, 0, 0, 0, 0, 0] spread"

definition long_coords_pose :: Result_ where
  "long_coords_pose = pose_of (replicate 17 0) (replicate 18 (0, 0))"

definition short_pose :: Result_ where
  "short_pose = pose_of (replicate 15 0) []"

definition vga :: Mat where
  "vga = \<lparr>cols = 640, rows = 480, data = [], overlay = []\<rparr>"

definition no_result :: Result where
  "no_result = \<lparr>result_time_pre_process = 0, result_time_inference = 0,
     result_time_post_process = 0\<rparr>"

definition params :: InputParam where
  "params = \<lparr>work_dir = ''resource'', num_threads = 4\<rparr>"

definition empty_global :: "nat global" where
  "empty_global = \<lparr>s_pose_engine = None\<rparr>"

section \<open>Runs on the example inputs\<close>

lemma stub_engine_Process:
  "PoseEngine_Process (stub_engine pose) mat e = (kRetOk, pose, Suc e)"
  by (simp add: stub_engine_def)

lemma still_run:
  "Process (stub_engine still_pose) vga no_result \<lparr>s_pose_engine = Some 2\<rparr>
     = Returns (Inr (), vga\<lparr>overlay := [DrawText 2 (0, 0)]\<rparr>,
         \<lparr>result_time_pre_process = 1, result_time_inference = 2,
          result_time_post_process = 3\<rparr>,
         \<lparr>s_pose_engine = Some 3\<rparr>)"
  by code_simp

lemma mixed_run:
  "Process (stub_engine mixed_pose) vga no_result \<lparr>s_pose_engine = Some 1\<rparr>
     = Returns (Inr (),
         vga\<lparr>overlay :=
           [cv_line (0, 0) (10, 20) (CreateCvColor 200 200 200) 2,
            cv_line (10, 20) (30, 60) (CreateCvColor 200 200 200) 2,
            cv_circle (0, 0) 5 (CreateCvColor 0 255 0) (- 1),
            cv_circle (10, 20) 5 (CreateCvColor 0 255 0) (- 1),
            cv_circle (30, 60) 5 (CreateCvColor 0 255 0) (- 1),
            cv_circle (160, 320) 5 (CreateCvColor 0 255 0) (- 1),
            DrawText 2 (0, 0)]\<rparr>,
         \<lparr>result_time_pre_process = 1, result_time_inference = 2,
          result_time_post_process = 3\<rparr>,
         \<lparr>s_pose_engine = Some 2\<rparr>)"
  by code_simp

lemma pair_run:
  "Process (stub_engine pair_pose) vga no_result \<lparr>s_pose_engine = Some 1\<rparr>
     = Returns (Inr (),
         vga\<lparr>overlay :=
           [cv_line (50, 100) (70, 140) (CreateCvColor 200 200 200) 2,
            cv_circle (50, 100) 5 (CreateCvColor 0 255 0) (- 1),
            cv_circle (70, 140) 5 (CreateCvColor 0 255 0) (- 1),
            DrawText 2 (0, 0)]\<rparr>,
         \<lparr>result_time_pre_process = 1, result_time_inference = 2,
          result_time_post_process = 3\<rparr>,
         \<lparr>s_pose_engine = Some 2\<rparr>)"
  by code_simp

section \<open>The life cycle of the session\<close>

lemma and_then_Returns_iff:
  "and_then m f = Returns y \<longleftrightarrow> (\<exists>x. m = Returns x \<and> f x = Returns y)"
  by (cases m) auto

lemma Initialize_ok_engine:
  assumes "Initialize eng p s = (Inr (), s1)"
  shows "s_pose_engine s = None \<and> (\<exists>e. s_pose_engine s1 = Some e)"
  using assms by (auto simp: Initialize_def split: option.splits prod.splits if_splits)

lemma Finalize_engine:
  assumes "s_pose_engine s = Some e"
  shows "\<exists>e'. s_pose_engine (snd (Finalize eng s)) = Some e'"
  using assms by (auto simp: Finalize_def split: prod.splits)

lemma Process_uninitialized:
  assumes "s_pose_engine s = None"
  shows "Process eng mat r s = Returns (Inl NotInitialized, mat, r, s)"
  using assms by (simp add: Process_def)

lemma Process_engine_present:
  assumes "s_pose_engine s = Some e"
  shows "Process eng mat r s \<noteq> Returns (Inl NotInitialized, x)"
proof -
  obtain ret pose e' where "PoseEngine_Process eng mat e = (ret, pose, e')"
    by (cases "PoseEngine_Process eng mat e") auto
  with assms show ?thesis
    by (auto simp: Process_def Let_def and_then_Returns_iff)
qed

text \<open>
  C2. The claim: after a successful \<^verbatim>\<open>Finalize\<close> the session is uninitialized again,
  so that \<^verbatim>\<open>Initialize\<close> succeeds and \<^verbatim>\<open>Command\<close> fails as not initialized.
  What the code does: \<^verbatim>\<open>Finalize\<close> calls the engine's \<^verbatim>\<open>Finalize\<close> and never
  resets \<^verbatim>\<open>s_pose_engine\<close>. After a successful \<^verbatim>\<open>Initialize\<close> and a successful
  \<^verbatim>\<open>Finalize\<close> the pointer is still set, every further \<^verbatim>\<open>Initialize\<close> takes the
  "Already initialized" branch, every \<^verbatim>\<open>Command\<close> the "not supported" branch, and
  no \<^verbatim>\<open>Process\<close> the "Not initialized" branch.
\<close>

theorem Finalize_keeps_the_engine:
  assumes "Initialize eng p s = (Inr (), s1)" and "Finalize eng s1 = (Inr (), s2)"
  shows "s_pose_engine s2 \<noteq> None
    \<and> Initialize eng p' s2 = (Inl AlreadyInitialized, s2)
    \<and> Command cmd s2 = (Inl UnsupportedCommand, s2)
    \<and> (\<forall>x. Process eng mat r s2 \<noteq> Returns (Inl NotInitialized, x))"
proof -
  obtain e where "s_pose_engine s1 = Some e"
    using Initialize_ok_engine [OF assms(1)] by blast
  then obtain e' where held: "s_pose_engine s2 = Some e'"
    using Finalize_engine [of s1 e eng] assms(2) by auto
  then have "\<forall>x. Process eng mat r s2 \<noteq> Returns (Inl NotInitialized, x)"
    using Process_engine_present [of s2 e' eng mat r] by simp
  with held show ?thesis
    by (simp add: Initialize_def Command_def)
qed

theorem Finalize_keeps_the_engine_witness:
  "Initialize (stub_engine still_pose) params empty_global = (Inr (), \<lparr>s_pose_engine = Some 1\<rparr>)
   \<and> Finalize (stub_engine still_pose) \<lparr>s_pose_engine = Some 1\<rparr>
       = (Inr (), \<lparr>s_pose_engine = Some 2\<rparr>)
   \<and> Initialize (stub_engine still_pose) params \<lparr>s_pose_engine = Some 2\<rparr>
       = (Inl AlreadyInitialized, \<lparr>s_pose_engine = Some 2\<rparr>)
   \<and> Command 0 \<lparr>s_pose_engine = Some (2::nat)\<rparr>
       = (Inl UnsupportedCommand, \<lparr>s_pose_engine = Some 2\<rparr>)
   \<and> (\<forall>x. Process (stub_engine still_pose) vga no_result \<lparr>s_pose_engine = Some 2\<rparr>
       \<noteq> Returns (Inl NotInitialized, x))"
proof -
  have i: "Initialize (stub_engine still_pose) params empty_global
      = (Inr (), \<lparr>s_pose_engine = Some 1\<rparr>)"
    by (simp add: Initialize_def stub_engine_def empty_global_def kRetOk_def)
  have f: "Finalize (stub_engine still_pose) \<lparr>s_pose_engine = Some 1\<rparr>
      = (Inr (), \<lparr>s_pose_engine = Some 2\<rparr>)"
    by (simp add: Finalize_def stub_engine_def kRetOk_def)
  show ?thesis
    using i f Finalize_keeps_the_engine [OF i f, of params 0 vga no_result] by simp
qed

text \<open>
  C3. The claim: \<^verbatim>\<open>Process\<close> on a session that is uninitialized, or that has been
  finalized, returns the not-initialized error and leaves the frame as it was. The
  first half holds: before the successful \<^verbatim>\<open>Initialize\<close> the call takes the
  "Not initialized" branch and returns the frame and the result untouched. The second
  does not: after a successful \<^verbatim>\<open>Finalize\<close> the pointer is still set, so
  \<^verbatim>\<open>Process\<close> never takes that branch; it calls the finalized engine.
\<close>

theorem Process_on_finalized_session:
  assumes "Initialize eng p s = (Inr (), s1)" and "Finalize eng s1 = (Inr (), s2)"
  shows "Process eng mat r s = Returns (Inl NotInitialized, mat, r, s)
    \<and> (\<forall>x. Process eng mat r s2 \<noteq> Returns (Inl NotInitialized, x))"
proof -
  have "s_pose_engine s = None"
    using Initialize_ok_engine [OF assms(1)] by blast
  then have before: "Process eng mat r s = Returns (Inl NotInitialized, mat, r, s)"
    by (rule Process_uninitialized)
  obtain e where "s_pose_engine s1 = Some e"
    using Initialize_ok_engine [OF assms(1)] by blast
  then obtain e' where "s_pose_engine s2 = Some e'"
    using Finalize_engine [of s1 e eng] assms(2) by auto
  then have "\<forall>x. Process eng mat r s2 \<noteq> Returns (Inl NotInitialized, x)"
    using Process_engine_present [of s2 e' eng mat r] by simp
  with before show ?thesis
    by simp
qed

theorem Process_on_finalized_session_witness:
  "Initialize (stub_engine still_pose) params empty_global = (Inr (), \<lparr>s_pose_engine = Some 1\<rparr>)
   \<and> Finalize (stub_engine still_pose) \<lparr>s_pose_engine = Some 1\<rparr>
       = (Inr (), \<lparr>s_pose_engine = Some 2\<rparr>)
   \<and> Process (stub_engine still_pose) vga no_result empty_global
       = Returns (Inl NotInitialized, vga, no_result, empty_global)
   \<and> Process (stub_engine still_pose) vga no_result \<lparr>s_pose_engine = Some 2\<rparr>
       = Returns (Inr (), vga\<lparr>overlay := [DrawText 2 (0, 0)]\<rparr>,
           \<lparr>result_time_pre_process = 1, result_time_inference = 2,
            result_time_post_process = 3\<rparr>,
           \<lparr>s_pose_engine = Some 3\<rparr>)
   \<and> (\<forall>x. Process (stub_engine still_pose) vga no_result \<lparr>s_pose_engine = Some 2\<rparr>
       \<noteq> Returns (Inl NotInitialized, x))"
proof -
  have i: "Initialize (stub_engine still_pose) params empty_global
      = (Inr (), \<lparr>s_pose_engine = Some 1\<rparr>)"
    by (simp add: Initialize_def stub_engine_def empty_global_def kRetOk_def)
  have f: "Finalize (stub_engine still_pose) \<lparr>s_pose_engine = Some 1\<rparr>
      = (Inr (), \<lparr>s_pose_engine = Some 2\<rparr>)"
    by (simp add: Finalize_def stub_engine_def kRetOk_def)
  show ?thesis
    using i f still_run Process_on_finalized_session [OF i f, of vga no_result] by simp
qed

text \<open>
  C6. A second \<^verbatim>\<open>Initialize\<close> with no \<^verbatim>\<open>Finalize\<close> in between takes the
  "Already initialized" branch and leaves the global as the first call set it: the
  engine object the first call created and initialized is still the one held, and
  \<^verbatim>\<open>Process\<close> afterwards is \<^verbatim>\<open>Process\<close> on the first session.
\<close>

theorem Initialize_twice:
  assumes "Initialize eng p s = (Inr (), s1)"
  shows "\<exists>e. PoseEngine_Initialize eng (work_dir p) (num_threads p) (PoseEngine_new eng)
        = (kRetOk, e)
    \<and> s_pose_engine s1 = Some e
    \<and> Initialize eng p' s1 = (Inl AlreadyInitialized, s1)
    \<and> ret_code (fst (Initialize eng p' s1)) = - 1
    \<and> (\<forall>mat r. Process eng mat r (snd (Initialize eng p' s1)) = Process eng mat r s1)"
  using assms
  by (auto simp: Initialize_def split: option.splits prod.splits if_splits)

theorem Initialize_twice_witness:
  "Initialize (stub_engine still_pose) params empty_global = (Inr (), \<lparr>s_pose_engine = Some 1\<rparr>)
   \<and> Initialize (stub_engine still_pose) params \<lparr>s_pose_engine = Some 1\<rparr>
       = (Inl AlreadyInitialized, \<lparr>s_pose_engine = Some 1\<rparr>)
   \<and> Process (stub_engine still_pose) vga no_result
        (snd (Initialize (stub_engine still_pose) params \<lparr>s_pose_engine = Some 1\<rparr>))
       = Process (stub_engine still_pose) vga no_result \<lparr>s_pose_engine = Some 1\<rparr>"
proof -
  have i: "Initialize (stub_engine still_pose) params empty_global
      = (Inr (), \<lparr>s_pose_engine = Some 1\<rparr>)"
    by (simp add: Initialize_def stub_engine_def empty_global_def kRetOk_def)
  show ?thesis
    using i Initialize_twice [OF i, of params] by auto
qed

text \<open>
  C7. The claim: \<^verbatim>\<open>Command\<close> returns the unsupported-command error for every code,
  in every state. It does so whenever an engine is held; with no engine held it takes
  the "Not initialized" branch first. In both cases it returns \<open>-1\<close> and changes
  nothing.
\<close>

theorem Command_uninitialized_counterexample:
  "fst (Command 0 empty_global) \<noteq> Inl UnsupportedCommand"
  by (simp add: Command_def empty_global_def)

text \<open>
  C7, amended. For every code, \<^verbatim>\<open>Command\<close> returns \<open>-1\<close> and leaves the global as
  it was: through the "not supported" branch when an engine is held, through the
  "Not initialized" branch when none is.
\<close>

theorem Command_never_ok:
  "ret_code (fst (Command cmd s)) = - 1
   \<and> snd (Command cmd s) = s
   \<and> (s_pose_engine s \<noteq> None \<longrightarrow> fst (Command cmd s) = Inl UnsupportedCommand)
   \<and> (s_pose_engine s = None \<longrightarrow> fst (Command cmd s) = Inl NotInitialized)"
  by (simp add: Command_def split: option.splits)

theorem Command_never_ok_witness:
  "fst (Command 7 \<lparr>s_pose_engine = Some (1::nat)\<rparr>) = Inl UnsupportedCommand
   \<and> ret_code (fst (Command 7 \<lparr>s_pose_engine = Some (1::nat)\<rparr>)) = - 1
   \<and> fst (Command 7 empty_global) = Inl NotInitialized
   \<and> ret_code (fst (Command 7 empty_global)) = - 1"
  using Command_never_ok [of 7 "\<lparr>s_pose_engine = Some (1::nat)\<rparr>"]
    Command_never_ok [of 7 empty_global]
  by (simp add: empty_global_def)

text \<open>
  C10. When the engine's own \<^verbatim>\<open>Initialize\<close> fails, the facade's \<^verbatim>\<open>Initialize\<close>
  returns \<open>-1\<close> and keeps the engine object it has just created. A further
  \<^verbatim>\<open>Initialize\<close> then takes the "Already initialized" branch, and neither
  \<^verbatim>\<open>Finalize\<close> nor \<^verbatim>\<open>Process\<close> takes the "Not initialized" branch.
\<close>

theorem Initialize_failure_keeps_the_engine:
  assumes "s_pose_engine s = None"
    and "PoseEngine_Initialize eng (work_dir p) (num_threads p) (PoseEngine_new eng) = (ret, e)"
    and "ret \<noteq> kRetOk"
  shows "Initialize eng p s = (Inl EngineFailed, s\<lparr>s_pose_engine := Some e\<rparr>)
    \<and> Initialize eng p' (s\<lparr>s_pose_engine := Some e\<rparr>)
        = (Inl AlreadyInitialized, s\<lparr>s_pose_engine := Some e\<rparr>)
    \<and> fst (Finalize eng (s\<lparr>s_pose_engine := Some e\<rparr>)) \<noteq> Inl NotInitialized
    \<and> (\<forall>mat r x. Process eng mat r (s\<lparr>s_pose_engine := Some e\<rparr>)
        \<noteq> Returns (Inl NotInitialized, x))"
proof -
  have "\<forall>mat r x. Process eng mat r (s\<lparr>s_pose_engine := Some e\<rparr>)
      \<noteq> Returns (Inl NotInitialized, x)"
    using Process_engine_present [of "s\<lparr>s_pose_engine := Some e\<rparr>" e] by simp
  then show ?thesis
    using assms by (simp add: Initialize_def Finalize_def split: prod.splits)
qed

theorem Initialize_failure_keeps_the_engine_witness:
  "Initialize failing_engine params empty_global = (Inl EngineFailed, \<lparr>s_pose_engine = Some 1\<rparr>)
   \<and> Initialize failing_engine params \<lparr>s_pose_engine = Some 1\<rparr>
       = (Inl AlreadyInitialized, \<lparr>s_pose_engine = Some 1\<rparr>)
   \<and> Finalize failing_engine \<lparr>s_pose_engine = Some 1\<rparr> = (Inr (), \<lparr>s_pose_engine = Some 2\<rparr>)
   \<and> Process failing_engine vga no_result \<lparr>s_pose_engine = Some 1\<rparr>
       = Returns (Inl EngineFailed, vga, no_result, \<lparr>s_pose_engine = Some 2\<rparr>)"
proof -
  have n: "s_pose_engine empty_global = None"
    by (simp add: empty_global_def)
  have e: "PoseEngine_Initialize failing_engine (work_dir params) (num_threads params)
      (PoseEngine_new failing_engine) = (kRetErr, 1)"
    by (simp add: failing_engine_def)
  have r: "kRetErr \<noteq> kRetOk"
    by (simp add: kRetErr_def kRetOk_def)
  show ?thesis
    using Initialize_failure_keeps_the_engine [OF n e r, of params]
    by (simp add: empty_global_def Finalize_def Process_def failing_engine_def
        kRetOk_def kRetErr_def)
qed

section \<open>The joint-line table\<close>

text \<open>
  C8. \<^verbatim>\<open>jointLineList\<close> has 16 entries, and both indices of every entry lie in
  \<open>[0, 17)\<close>, read as the signed numbers they are.
\<close>

theorem jointLineList_indices:
  "length jointLineList = 16
   \<and> list_all (\<lambda>(a, b). 0 \<le> sint a \<and> sint a < 17 \<and> 0 \<le> sint b \<and> sint b < 17) jointLineList"
  by (simp add: jointLineList_def)

section \<open>What Process draws\<close>

subsection \<open>The loops\<close>

lemma sint_succ:
  fixes i n :: int32_t
  assumes "sint i < sint n"
  shows "sint (i + 1) = sint i + 1"
proof -
  have "sint n < 2 ^ 31"
    using sint_lt [of n] by simp
  moreover have "- (2 ^ 31) \<le> sint i"
    using sint_ge [of i] by simp
  ultimately have "signed_take_bit 31 (sint i + 1) = sint i + 1"
    using assms by (intro signed_take_bit_int_eq_self) auto
  then show ?thesis
    by (simp add: sint_word_ariths)
qed

lemma for_loop_for_each:
  "for_loop body i n mat = for_each body (map word_of_int [sint i .. sint n - 1]) mat"
proof (induction body i n mat rule: for_loop.induct)
  case (1 body i n mat)
  show ?case
  proof (cases "sint i < sint n")
    case False
    then show ?thesis
      by (simp add: for_loop.simps)
  next
    case True
    then have range: "[sint i .. sint n - 1] = sint i # [sint (i + 1) .. sint n - 1]"
      by (simp add: upto_rec1 sint_succ [OF True])
    show ?thesis
    proof (cases "body i mat")
      case (Undefined u)
      with True show ?thesis
        by (simp add: for_loop.simps [of body i n mat] range)
    next
      case (Returns mat1)
      with True 1 show ?thesis
        by (simp add: for_loop.simps [of body i n mat] range)
    qed
  qed
qed

lemma for_loop_indices:
  "for_loop body 0 n mat = for_each body (indices n) mat"
  by (simp add: for_loop_for_each indices_def)

lemma for_each_draws:
  assumes "for_each body xs mat = Returns mat'"
    and "\<And>x m m'. x \<in> set xs \<Longrightarrow> body x m = Returns m' \<Longrightarrow> m' = (if P x then draw m (c x) else m)"
  shows "mat' = mat\<lparr>overlay := overlay mat @ map c (filter P xs)\<rparr>"
  using assms
proof (induction xs arbitrary: mat)
  case Nil
  then show ?case by simp
next
  case (Cons x xs)
  from Cons.prems(1) obtain m1 where m1: "body x mat = Returns m1" and rest: "for_each body xs m1 = Returns mat'"
    by (auto simp: and_then_Returns_iff)
  have step: "m1 = (if P x then draw mat (c x) else mat)"
    using Cons.prems(2) [of x mat m1] m1 by simp
  have "mat' = m1\<lparr>overlay := overlay m1 @ map c (filter P xs)\<rparr>"
    using Cons.IH [OF rest] Cons.prems(2) by simp
  with step show ?case
    by (simp add: draw_def)
qed

lemma subscript_Returns_iff:
  "subscript v i = Returns x \<longleftrightarrow> 0 \<le> sint i \<and> nat (sint i) < length v \<and> x = v ! nat (sint i)"
  by (auto simp: subscript_def)

lemma float_to_int32_Returns:
  "float_to_int32 x = Returns k \<Longrightarrow> k = word_of_int (float_trunc x)"
  by (auto simp: float_to_int32_def split: if_splits)

lemma clears_iff:
  "clears score_list i \<longleftrightarrow>
     0 \<le> sint i \<and> nat (sint i) < length score_list \<and> score_threshold \<le> score_list ! nat (sint i)"
  by (auto simp: clears_def subscript_def)

lemma draw_joint_line_Returns:
  assumes "draw_joint_line score_list part_list jl mat = Returns mat'"
  shows "mat' = (if clears score_list (fst jl) \<and> clears score_list (snd jl)
                 then draw mat (joint_line_call part_list jl) else mat)"
  using assms
  by (auto simp: draw_joint_line_def clears_iff joint_line_call_def point_of_def
      and_then_Returns_iff subscript_Returns_iff
      dest!: float_to_int32_Returns split: if_splits)

lemma draw_keypoint_Returns:
  assumes "draw_keypoint score_list part_list i mat = Returns mat'"
  shows "mat' = (if clears score_list i then draw mat (marker_call part_list i) else mat)"
  using assms
  by (auto simp: draw_keypoint_def clears_iff marker_call_def point_of_def
      and_then_Returns_iff subscript_Returns_iff
      dest!: float_to_int32_Returns split: if_splits)

lemma Process_overlay:
  assumes "s_pose_engine s = Some e"
    and "PoseEngine_Process eng mat e = (kRetOk, pose, e')"
    and "pose_keypoint_scores pose = score_list # other_scores"
    and "pose_keypoint_coords pose = part_list # other_coords"
    and "Process eng mat r s = Returns (Inr (), mat', r', s')"
  shows "overlay mat' = overlay mat
      @ map (joint_line_call part_list)
          (filter (\<lambda>jl. clears score_list (fst jl) \<and> clears score_list (snd jl)) jointLineList)
      @ map (marker_call part_list)
          (filter (clears score_list) (indices (word_of_nat (length part_list))))
      @ [DrawText (time_inference pose) (0, 0)]"
proof -
  have sl: "subscript (pose_keypoint_scores pose) 0 = Returns score_list"
    and pl: "subscript (pose_keypoint_coords pose) 0 = Returns part_list"
    using assms(3,4) by (simp_all add: subscript_def)
  from assms(1,2,5) sl pl obtain mat1 mat2
    where lines: "for_each (draw_joint_line score_list part_list) jointLineList mat = Returns mat1"
      and markers: "for_each (draw_keypoint score_list part_list)
          (indices (word_of_nat (length part_list))) mat1 = Returns mat2"
      and fps: "mat' = DrawFps mat2 (time_inference pose)"
    by (auto simp: Process_def Let_def and_then_Returns_iff for_loop_indices)
  have "mat1 = mat\<lparr>overlay := overlay mat @ map (joint_line_call part_list)
          (filter (\<lambda>jl. clears score_list (fst jl) \<and> clears score_list (snd jl)) jointLineList)\<rparr>"
    by (rule for_each_draws [OF lines]) (rule draw_joint_line_Returns)
  moreover have "mat2 = mat1\<lparr>overlay := overlay mat1 @ map (marker_call part_list)
          (filter (clears score_list) (indices (word_of_nat (length part_list))))\<rparr>"
    by (rule for_each_draws [OF markers]) (rule draw_keypoint_Returns)
  ultimately show ?thesis
    using fps by (simp add: DrawFps_def draw_def)
qed

subsection \<open>The counter of the marker loop\<close>

lemma sint_word_of_int_small:
  assumes "0 \<le> k" and "k < 2 ^ 31"
  shows "sint (word_of_int k :: int32_t) = k"
proof -
  have "signed_take_bit 31 k = k"
    using assms by (intro signed_take_bit_int_eq_self) auto
  then show ?thesis
    by (simp add: sint_sbintrunc')
qed

lemma indices_range:
  assumes "x \<in> set (indices n)"
  shows "0 \<le> sint x \<and> sint x < sint n"
proof -
  from assms obtain k where k: "0 \<le> k" "k \<le> sint n - 1" and x: "x = word_of_int k"
    by (auto simp: indices_def)
  have "sint n < 2 ^ 31"
    using sint_lt [of n] by simp
  with k have "sint (word_of_int k :: int32_t) = k"
    by (intro sint_word_of_int_small) auto
  with k x show ?thesis
    by simp
qed

lemma distinct_indices: "distinct (indices n)"
proof -
  have "inj_on (word_of_int :: int \<Rightarrow> int32_t) (set [0 .. sint n - 1])"
  proof (rule inj_on_inverseI [where g = sint])
    fix k assume "k \<in> set [0 .. sint n - 1]"
    moreover have "sint n < 2 ^ 31"
      using sint_lt [of n] by simp
    ultimately show "sint (word_of_int k :: int32_t) = k"
      by (intro sint_word_of_int_small) auto
  qed
  then show ?thesis
    by (simp add: indices_def distinct_map)
qed

lemma sint_word_of_nat_small:
  assumes "n < 2 ^ 31"
  shows "sint (word_of_nat n :: int32_t) = int n"
proof -
  have "int n < 2 ^ 31"
    using assms by (metis of_nat_less_iff of_nat_numeral of_nat_power)
  then have "sint (word_of_int (int n) :: int32_t) = int n"
    by (intro sint_word_of_int_small) auto
  then show ?thesis
    by simp
qed

lemma mem_indices:
  assumes "0 \<le> sint x" and "sint x < sint n"
  shows "x \<in> set (indices n)"
proof -
  have "x = word_of_int (sint x)"
    by simp
  moreover have "sint x \<in> set [0 .. sint n - 1]"
    using assms by simp
  ultimately show ?thesis
    unfolding indices_def by (metis imageI set_map)
qed

lemma sint_word_of_nat_le: "sint (word_of_nat n :: int32_t) \<le> int n"
proof -
  have "- (2 ^ 31) \<le> uint (word_of_nat n :: int32_t)"
    by (rule order_trans [of _ 0]) simp_all
  then have "sint (word_of_nat n :: int32_t) \<le> uint (word_of_nat n :: int32_t)"
    by (simp add: sint_uint signed_take_bit_int_less_eq_self_iff)
  also have "\<dots> \<le> int n"
    by (simp add: uint_word_of_int unsigned_of_nat take_bit_int_less_eq_self_iff take_bit_eq_mod)
  finally show ?thesis .
qed

lemma upto_int_nat: "[0 .. int n - 1] = map int [0..<n]"
proof (induction n)
  case 0
  then show ?case by simp
next
  case (Suc n)
  have "[0 .. int (Suc n) - 1] = [0 .. int n - 1] @ [int n]"
    using upto_rec2 [of 0 "int n"] by simp
  with Suc show ?case by simp
qed

lemma indices_all:
  assumes "n < 2 ^ 31"
  shows "indices (word_of_nat n) = map word_of_nat [0..<n]"
  by (simp add: indices_def sint_word_of_nat_small [OF assms] upto_int_nat)

subsection \<open>The threshold and the table\<close>

text \<open>
  A single-precision number below \<open>1 / 8\<close> or from \<open>1 / 4\<close> on is on the same side of
  \<open>0.2\<close> and of \<^verbatim>\<open>0.2F\<close>; one in between is a multiple of \<open>2 ^ - 26\<close>, and no
  multiple lies from \<open>0.2\<close> up to \<^verbatim>\<open>0.2F\<close>. The table has no entry twice, no entry
  in both directions and no entry from a keypoint to itself.
\<close>

lemma score_threshold_grid:
  assumes "x < 1 / 8 \<or> 1 / 4 \<le> x \<or> (\<exists>m::int. x = real_of_int m / 2 ^ 26)"
  shows "score_threshold \<le> x \<longleftrightarrow> 1 / 5 \<le> x"
  using assms unfolding score_threshold_def
  by (auto simp: field_simps)

lemma table_shape:
  "distinct jointLineList
   \<and> (\<forall>jl \<in> set jointLineList. fst jl \<noteq> snd jl)
   \<and> (\<forall>jl \<in> set jointLineList. (snd jl, fst jl) \<notin> set jointLineList)"
  by (simp add: jointLineList_def)

subsection \<open>Faults\<close>

lemma and_then_Undefined_iff:
  "and_then m f = Undefined u \<longleftrightarrow> m = Undefined u \<or> (\<exists>x. m = Returns x \<and> f x = Undefined u)"
  by (cases m) auto

lemma for_each_no_fault:
  assumes "\<And>x m. x \<in> set xs \<Longrightarrow> body x m \<noteq> Undefined u"
  shows "for_each body xs mat \<noteq> Undefined u"
  using assms
  by (induction xs arbitrary: mat) (auto simp: and_then_Undefined_iff)

lemma float_to_int32_no_index_fault: "float_to_int32 x \<noteq> Undefined IndexOutOfRange"
  by (simp add: float_to_int32_def)

lemma subscript_in_range:
  assumes "0 \<le> sint i" and "nat (sint i) < length v"
  shows "subscript v i = Returns (v ! nat (sint i))"
  using assms by (simp add: subscript_def)

lemma draw_joint_line_in_bounds:
  assumes "0 \<le> sint (fst jl)" "0 \<le> sint (snd jl)"
    and "nat (sint (fst jl)) < length score_list" "nat (sint (snd jl)) < length score_list"
    and "nat (sint (fst jl)) < length part_list" "nat (sint (snd jl)) < length part_list"
  shows "draw_joint_line score_list part_list jl mat \<noteq> Undefined IndexOutOfRange"
  using assms
  by (simp add: draw_joint_line_def subscript_in_range and_then_Undefined_iff
      float_to_int32_no_index_fault)

lemma draw_keypoint_in_bounds:
  assumes "0 \<le> sint i" and "nat (sint i) < length score_list" and "nat (sint i) < length part_list"
  shows "draw_keypoint score_list part_list i mat \<noteq> Undefined IndexOutOfRange"
  using assms
  by (simp add: draw_keypoint_def subscript_in_range and_then_Undefined_iff
      float_to_int32_no_index_fault)


subsection \<open>What a returning call has done\<close>

lemma no_score_clears:
  assumes "\<forall>x \<in> set score_list. x < score_threshold"
  shows "\<not> clears score_list i"
proof
  assume "clears score_list i"
  then have "nat (sint i) < length score_list"
    and "score_threshold \<le> score_list ! nat (sint i)"
    by (simp_all add: clears_iff)
  moreover from this(1) have "score_list ! nat (sint i) \<in> set score_list"
    by simp
  ultimately show False
    using assms by fastforce
qed

lemma for_each_Returns_elem:
  assumes "for_each body xs mat = Returns mat'" and "x \<in> set xs"
  shows "\<exists>m m'. body x m = Returns m'"
  using assms
  by (induction xs arbitrary: mat) (auto simp: and_then_Returns_iff)

lemma draw_joint_line_Returns_range:
  assumes "draw_joint_line score_list part_list jl m = Returns m'"
    and "clears score_list (fst jl)" and "clears score_list (snd jl)"
  shows "nat (sint (fst jl)) < length part_list \<and> nat (sint (snd jl)) < length part_list"
  using assms
  by (auto simp: draw_joint_line_def clears_iff and_then_Returns_iff subscript_Returns_iff)

lemma Process_Returns_loops:
  assumes "s_pose_engine s = Some e"
    and "PoseEngine_Process eng mat e = (kRetOk, pose, e')"
    and "pose_keypoint_scores pose = score_list # other_scores"
    and "pose_keypoint_coords pose = part_list # other_coords"
    and "Process eng mat r s = Returns (Inr (), mat', r', s')"
  shows "\<exists>mat1 mat2.
      for_each (draw_joint_line score_list part_list) jointLineList mat = Returns mat1
    \<and> for_each (draw_keypoint score_list part_list)
          (indices (word_of_nat (length part_list))) mat1 = Returns mat2
    \<and> mat' = DrawFps mat2 (time_inference pose)"
proof -
  have "subscript (pose_keypoint_scores pose) 0 = Returns score_list"
    and "subscript (pose_keypoint_coords pose) 0 = Returns part_list"
    using assms(3,4) by (simp_all add: subscript_def)
  with assms(1,2,5) show ?thesis
    by (auto simp: Process_def Let_def and_then_Returns_iff for_loop_indices)
qed

lemma filter_eq_singleton:
  assumes "distinct xs" and "y \<in> set xs"
  shows "filter (\<lambda>x. x = y) xs = [y]"
  using assms
proof (induction xs)
  case Nil
  then show ?case by simp
next
  case (Cons x xs)
  show ?case
  proof (cases "x = y")
    case True
    with Cons.prems have "y \<notin> set xs" by simp
    then have "filter (\<lambda>x. x = y) xs = []"
      by (auto simp: filter_empty_conv)
    with True show ?thesis by simp
  next
    case False
    with Cons show ?thesis by simp
  qed
qed



subsection \<open>Returning\<close>

text \<open>
  \<^verbatim>\<open>Process\<close> returns 0 whenever the engine does and hands over a body with at least
  17 coordinates, at least as many scores, and coordinates that fit.
\<close>

lemma float_to_int32_fits:
  assumes "fits x"
  shows "float_to_int32 x = Returns (word_of_int (float_trunc x))"
  using assms by (simp add: float_to_int32_def fits_def)

lemma for_each_Returns:
  assumes "\<And>x m. x \<in> set xs \<Longrightarrow> \<exists>m'. body x m = Returns m'"
  shows "\<exists>mat'. for_each body xs mat = Returns mat'"
  using assms
proof (induction xs arbitrary: mat)
  case Nil
  then show ?case by simp
next
  case (Cons x xs)
  obtain m1 where "body x mat = Returns m1"
    using Cons.prems [of x mat] by auto
  moreover obtain mat' where "for_each body xs m1 = Returns mat'"
    using Cons.IH [of m1] Cons.prems by auto
  ultimately show ?case
    by simp
qed

lemma draw_joint_line_returns:
  assumes "0 \<le> sint (fst jl)" "0 \<le> sint (snd jl)"
    and "nat (sint (fst jl)) < length score_list" "nat (sint (snd jl)) < length score_list"
    and "nat (sint (fst jl)) < length part_list" "nat (sint (snd jl)) < length part_list"
    and "\<forall>p \<in> set part_list. fits (fst p) \<and> fits (snd p)"
  shows "\<exists>m'. draw_joint_line score_list part_list jl m = Returns m'"
proof -
  have "fits (fst (part_list ! nat (sint (fst jl))))" "fits (snd (part_list ! nat (sint (fst jl))))"
    "fits (fst (part_list ! nat (sint (snd jl))))" "fits (snd (part_list ! nat (sint (snd jl))))"
    using assms(5,6,7) by (simp_all add: nth_mem)
  then show ?thesis
    using assms(1-6)
    by (simp add: draw_joint_line_def subscript_in_range float_to_int32_fits)
qed

lemma draw_keypoint_returns:
  assumes "0 \<le> sint i" and "nat (sint i) < length score_list" and "nat (sint i) < length part_list"
    and "\<forall>p \<in> set part_list. fits (fst p) \<and> fits (snd p)"
  shows "\<exists>m'. draw_keypoint score_list part_list i m = Returns m'"
proof -
  have "fits (fst (part_list ! nat (sint i)))" "fits (snd (part_list ! nat (sint i)))"
    using assms(3,4) by (simp_all add: nth_mem)
  then show ?thesis
    using assms(1-3)
    by (simp add: draw_keypoint_def subscript_in_range float_to_int32_fits)
qed

lemma Process_returns:
  assumes "s_pose_engine s = Some e"
    and "PoseEngine_Process eng mat e = (kRetOk, pose, e')"
    and "pose_keypoint_scores pose = score_list # other_scores"
    and "pose_keypoint_coords pose = part_list # other_coords"
    and "17 \<le> length part_list"
    and "length part_list \<le> length score_list"
    and "\<forall>p \<in> set part_list. fits (fst p) \<and> fits (snd p)"
  shows "\<exists>mat'. Process eng mat r s = Returns (Inr (), mat',
      r\<lparr>result_time_pre_process := time_pre_process pose,
        result_time_inference := time_inference pose,
        result_time_post_process := time_post_process pose\<rparr>,
      s\<lparr>s_pose_engine := Some e'\<rparr>)"
proof -
  have sl: "subscript (pose_keypoint_scores pose) 0 = Returns score_list"
    and pl: "subscript (pose_keypoint_coords pose) 0 = Returns part_list"
    using assms(3,4) by (simp_all add: subscript_def)
  have table: "list_all (\<lambda>(a, b). 0 \<le> sint a \<and> sint a < 17 \<and> 0 \<le> sint b \<and> sint b < 17) jointLineList"
    by (simp add: jointLineList_def)
  obtain mat1 where lines: "for_each (draw_joint_line score_list part_list) jointLineList mat
      = Returns mat1"
  proof -
    have "\<exists>mat1. for_each (draw_joint_line score_list part_list) jointLineList mat = Returns mat1"
    proof (rule for_each_Returns)
      fix jl m
      assume "jl \<in> set jointLineList"
      with table have "0 \<le> sint (fst jl) \<and> sint (fst jl) < 17 \<and> 0 \<le> sint (snd jl) \<and> sint (snd jl) < 17"
        by (auto simp: list_all_iff)
      with assms(5,6) show "\<exists>m'. draw_joint_line score_list part_list jl m = Returns m'"
        by (intro draw_joint_line_returns assms(7)) auto
    qed
    with that show ?thesis by blast
  qed
  obtain mat2 where markers: "for_each (draw_keypoint score_list part_list)
      (indices (word_of_nat (length part_list))) mat1 = Returns mat2"
  proof -
    have "\<exists>mat2. for_each (draw_keypoint score_list part_list)
        (indices (word_of_nat (length part_list))) mat1 = Returns mat2"
    proof (rule for_each_Returns)
      fix i m
      assume "i \<in> set (indices (word_of_nat (length part_list)))"
      then have "0 \<le> sint i \<and> sint i < sint (word_of_nat (length part_list) :: int32_t)"
        by (rule indices_range)
      moreover have "sint (word_of_nat (length part_list) :: int32_t) \<le> int (length part_list)"
        by (rule sint_word_of_nat_le)
      ultimately have "0 \<le> sint i \<and> nat (sint i) < length part_list"
        by auto
      with assms(6) show "\<exists>m'. draw_keypoint score_list part_list i m = Returns m'"
        by (intro draw_keypoint_returns assms(7)) auto
    qed
    with that show ?thesis by blast
  qed
  show ?thesis
    using assms(1,2) sl pl lines markers
    by (simp add: Process_def Let_def for_loop_indices)
qed

subsection \<open>The two passes\<close>

text \<open>
  C4. In a call of \<^verbatim>\<open>Process\<close> that returns 0, the drawing calls made on the frame
  are, in this order: one line for each entry of \<^verbatim>\<open>jointLineList\<close> both of whose
  keypoints clear the threshold, and for no other entry; one filled circle for each
  keypoint below \<^verbatim>\<open>part_num\<close> whose own score clears the threshold, and for no
  other keypoint, whatever lines were drawn; and the text of \<^verbatim>\<open>DrawFps\<close>. The
  keypoints below \<^verbatim>\<open>part_num\<close> are all keypoints of the coordinate vector when it
  has fewer than \<open>2 ^ 31\<close> elements (so that the cast of its size to \<^verbatim>\<open>int32_t\<close>
  keeps it). When every score of the body is below the threshold, the text is the only
  call. The threshold is \<^verbatim>\<open>0.2F\<close>; for a single-precision score,
  being at least \<^verbatim>\<open>0.2F\<close> and being at least \<open>0.2\<close> are the same
  (\<open>score_threshold_grid\<close>).
\<close>

theorem Process_draws_by_threshold:
  assumes "s_pose_engine s = Some e"
    and "PoseEngine_Process eng mat e = (kRetOk, pose, e')"
    and "pose_keypoint_scores pose = score_list # other_scores"
    and "pose_keypoint_coords pose = part_list # other_coords"
    and "Process eng mat r s = Returns (Inr (), mat', r', s')"
  shows "overlay mat' = overlay mat
      @ map (joint_line_call part_list)
          (filter (\<lambda>(a, b). clears score_list a \<and> clears score_list b) jointLineList)
      @ map (marker_call part_list)
          (filter (clears score_list) (indices (word_of_nat (length part_list))))
      @ [DrawText (time_inference pose) (0, 0)]
    \<and> (length part_list < 2 ^ 31 \<longrightarrow>
         indices (word_of_nat (length part_list)) = map word_of_nat [0..<length part_list])
    \<and> ((\<forall>x \<in> set score_list. x < score_threshold) \<longrightarrow>
         overlay mat' = overlay mat @ [DrawText (time_inference pose) (0, 0)])"
proof -
  have drawn: "overlay mat' = overlay mat
      @ map (joint_line_call part_list)
          (filter (\<lambda>(a, b). clears score_list a \<and> clears score_list b) jointLineList)
      @ map (marker_call part_list)
          (filter (clears score_list) (indices (word_of_nat (length part_list))))
      @ [DrawText (time_inference pose) (0, 0)]"
    using Process_overlay [OF assms] by (simp add: case_prod_unfold)
  have "overlay mat' = overlay mat @ [DrawText (time_inference pose) (0, 0)]"
    if "\<forall>x \<in> set score_list. x < score_threshold"
    using drawn no_score_clears [OF that] by simp
  with drawn indices_all [of "length part_list"] show ?thesis
    by blast
qed

theorem Process_draws_by_threshold_witness:
  "Process (stub_engine mixed_pose) vga no_result \<lparr>s_pose_engine = Some 1\<rparr>
     = Returns (Inr (),
         vga\<lparr>overlay :=
           [cv_line (0, 0) (10, 20) (CreateCvColor 200 200 200) 2,
            cv_line (10, 20) (30, 60) (CreateCvColor 200 200 200) 2,
            cv_circle (0, 0) 5 (CreateCvColor 0 255 0) (- 1),
            cv_circle (10, 20) 5 (CreateCvColor 0 255 0) (- 1),
            cv_circle (30, 60) 5 (CreateCvColor 0 255 0) (- 1),
            cv_circle (160, 320) 5 (CreateCvColor 0 255 0) (- 1),
            DrawText 2 (0, 0)]\<rparr>,
         \<lparr>result_time_pre_process = 1, result_time_inference = 2,
          result_time_post_process = 3\<rparr>,
         \<lparr>s_pose_engine = Some 2\<rparr>)
   \<and> [cv_line (0, 0) (10, 20) (CreateCvColor 200 200 200) 2,
       cv_line (10, 20) (30, 60) (CreateCvColor 200 200 200) 2,
       cv_circle (0, 0) 5 (CreateCvColor 0 255 0) (- 1),
       cv_circle (10, 20) 5 (CreateCvColor 0 255 0) (- 1),
       cv_circle (30, 60) 5 (CreateCvColor 0 255 0) (- 1),
       cv_circle (160, 320) 5 (CreateCvColor 0 255 0) (- 1),
       DrawText 2 (0, 0)]
     = map (joint_line_call spread)
         (filter (\<lambda>(a, b). clears (hd (pose_keypoint_scores mixed_pose)) a
            \<and> clears (hd (pose_keypoint_scores mixed_pose)) b) jointLineList)
       @ map (marker_call spread)
           (filter (clears (hd (pose_keypoint_scores mixed_pose)))
              (indices (word_of_nat (length spread))))
       @ [DrawText 2 (0, 0)]
   \<and> indices (word_of_nat (length spread)) = map word_of_nat [0..<length spread]
   \<and> Process (stub_engine still_pose) vga no_result \<lparr>s_pose_engine = Some 2\<rparr>
     = Returns (Inr (), vga\<lparr>overlay := [DrawText 2 (0, 0)]\<rparr>,
         \<lparr>result_time_pre_process = 1, result_time_inference = 2,
          result_time_post_process = 3\<rparr>,
         \<lparr>s_pose_engine = Some 3\<rparr>)"
proof -
  have held: "s_pose_engine \<lparr>s_pose_engine = Some n\<rparr> = Some n" for n :: nat
    by simp
  have scores: "pose_keypoint_scores mixed_pose = hd (pose_keypoint_scores mixed_pose) # []"
    and coords: "pose_keypoint_coords mixed_pose = spread # []"
    by (simp_all add: mixed_pose_def pose_of_def)
  have size: "length spread < 2 ^ 31"
    by (simp add: spread_def)
  have still_scores: "pose_keypoint_scores still_pose = replicate 17 0 # []"
    and still_coords: "pose_keypoint_coords still_pose = replicate 17 (1 / 2, 1 / 2) # []"
    by (simp_all add: still_pose_def pose_of_def)
  have below: "\<forall>x \<in> set (replicate 17 (0::real)). x < score_threshold"
    by (simp add: score_threshold_def)
  show ?thesis
    using mixed_run still_run
      Process_draws_by_threshold [OF held stub_engine_Process scores coords mixed_run]
      Process_draws_by_threshold [OF held stub_engine_Process still_scores still_coords still_run]
      size below
    by (simp add: vga_def mixed_pose_def still_pose_def pose_of_def)
qed

text \<open>
  C5. In a call of \<^verbatim>\<open>Process\<close> that returns 0, on a body (with fewer than
  \<open>2 ^ 31\<close> coordinates) in which the keypoints \<open>a\<close> and \<open>b\<close> of one entry of
  \<^verbatim>\<open>jointLineList\<close> clear the threshold and no other keypoint does, the calls made
  on the frame are the line of that entry, two circles, one at each of \<open>a\<close> and
  \<open>b\<close>, and the text of \<^verbatim>\<open>DrawFps\<close>.
\<close>

theorem Process_two_adjacent_joints:
  assumes "s_pose_engine s = Some e"
    and "PoseEngine_Process eng mat e = (kRetOk, pose, e')"
    and "pose_keypoint_scores pose = score_list # other_scores"
    and "pose_keypoint_coords pose = part_list # other_coords"
    and "length part_list < 2 ^ 31"
    and "(a, b) \<in> set jointLineList"
    and "clears score_list a" and "clears score_list b"
    and "\<forall>i. clears score_list i \<longrightarrow> i = a \<or> i = b"
    and "Process eng mat r s = Returns (Inr (), mat', r', s')"
  shows "\<exists>m1 m2. {m1, m2} = {a, b} \<and> m1 \<noteq> m2
    \<and> overlay mat' = overlay mat
        @ [joint_line_call part_list (a, b), marker_call part_list m1, marker_call part_list m2,
           DrawText (time_inference pose) (0, 0)]"
proof -
  let ?both = "\<lambda>jl. clears score_list (fst jl) \<and> clears score_list (snd jl)"
  let ?n = "word_of_nat (length part_list) :: int32_t"
  obtain mat1 where lines: "for_each (draw_joint_line score_list part_list) jointLineList mat = Returns mat1"
    using Process_Returns_loops [OF assms(1-4) assms(10)] by blast
  have ab: "a \<noteq> b" and no_reverse: "(b, a) \<notin> set jointLineList"
    using table_shape assms(6) by fastforce+
  have "?both jl \<longleftrightarrow> jl = (a, b)" if "jl \<in> set jointLineList" for jl
  proof
    assume "?both jl"
    then have "(fst jl = a \<or> fst jl = b) \<and> (snd jl = a \<or> snd jl = b)"
      using assms(9) by blast
    moreover have "fst jl \<noteq> snd jl"
      using table_shape that by blast
    ultimately have "jl = (a, b) \<or> jl = (b, a)"
      by (cases jl) auto
    with that no_reverse show "jl = (a, b)"
      by auto
  next
    assume "jl = (a, b)"
    with assms(7,8) show "?both jl" by simp
  qed
  then have "filter ?both jointLineList = filter (\<lambda>jl. jl = (a, b)) jointLineList"
    by (intro filter_cong) auto
  also have "\<dots> = [(a, b)]"
    using table_shape assms(6) by (intro filter_eq_singleton) auto
  finally have one_line: "filter ?both jointLineList = [(a, b)]" .
  obtain m m' where "draw_joint_line score_list part_list (a, b) m = Returns m'"
    using for_each_Returns_elem [OF lines assms(6)] by blast
  then have "nat (sint a) < length part_list \<and> nat (sint b) < length part_list"
    using draw_joint_line_Returns_range [of score_list part_list "(a, b)" m m'] assms(7,8) by simp
  moreover have "0 \<le> sint a \<and> 0 \<le> sint b"
    using assms(7,8) by (simp add: clears_iff)
  moreover have "sint ?n = int (length part_list)"
    by (rule sint_word_of_nat_small [OF assms(5)])
  ultimately have "a \<in> set (indices ?n)" and "b \<in> set (indices ?n)"
    by (auto intro!: mem_indices)
  then have "set (filter (clears score_list) (indices ?n)) = {a, b}"
    using assms(7,8,9) by auto
  moreover have "distinct (filter (clears score_list) (indices ?n))"
    by (simp add: distinct_indices)
  ultimately have "length (filter (clears score_list) (indices ?n)) = 2"
    using ab distinct_card [of "filter (clears score_list) (indices ?n)"] by simp
  then obtain m1 m2 where two: "filter (clears score_list) (indices ?n) = [m1, m2]"
    by (auto simp: length_Suc_conv numeral_2_eq_2)
  with \<open>set (filter (clears score_list) (indices ?n)) = {a, b}\<close>
    \<open>distinct (filter (clears score_list) (indices ?n))\<close>
  have "{m1, m2} = {a, b}" and "m1 \<noteq> m2"
    by auto
  moreover have "overlay mat' = overlay mat
        @ [joint_line_call part_list (a, b), marker_call part_list m1, marker_call part_list m2,
           DrawText (time_inference pose) (0, 0)]"
    using Process_overlay [OF assms(1-4) assms(10)] one_line two by simp
  ultimately show ?thesis
    by blast
qed

theorem Process_two_adjacent_joints_witness:
  "Process (stub_engine pair_pose) vga no_result \<lparr>s_pose_engine = Some 1\<rparr>
     = Returns (Inr (),
         vga\<lparr>overlay :=
           [cv_line (50, 100) (70, 140) (CreateCvColor 200 200 200) 2,
            cv_circle (50, 100) 5 (CreateCvColor 0 255 0) (- 1),
            cv_circle (70, 140) 5 (CreateCvColor 0 255 0) (- 1),
            DrawText 2 (0, 0)]\<rparr>,
         \<lparr>result_time_pre_process = 1, result_time_inference = 2,
          result_time_post_process = 3\<rparr>,
         \<lparr>s_pose_engine = Some 2\<rparr>)
   \<and> (\<exists>m1 m2. {m1, m2} = {5, 7} \<and> m1 \<noteq> m2
        \<and> [cv_line (50, 100) (70, 140) (CreateCvColor 200 200 200) 2,
            cv_circle (50, 100) 5 (CreateCvColor 0 255 0) (- 1),
            cv_circle (70, 140) 5 (CreateCvColor 0 255 0) (- 1),
            DrawText 2 (0, 0)]
          = [joint_line_call spread (5, 7), marker_call spread m1, marker_call spread m2,
             DrawText 2 (0, 0)])"
proof -
  let ?scores = "[0, 0, 0, 0, 0, 1, 0, 1, 0, 0, 0, 0, 0, 0, 0, 0, 0] :: real list"
  have held: "s_pose_engine \<lparr>s_pose_engine = Some (1::nat)\<rparr> = Some 1"
    by simp
  have scores: "pose_keypoint_scores pair_pose = ?scores # []"
    and coords: "pose_keypoint_coords pair_pose = spread # []"
    by (simp_all add: pair_pose_def pose_of_def)
  have size: "length spread < 2 ^ 31"
    by (simp add: spread_def)
  have edge: "(5, 7) \<in> set jointLineList"
    by (simp add: jointLineList_def)
  have five: "clears ?scores 5" and seven: "clears ?scores 7"
    by (simp_all add: clears_def subscript_def score_threshold_def)
  have "\<forall>k<17. score_threshold \<le> ?scores ! k \<longrightarrow> k = 5 \<or> k = 7"
    by (simp add: eval_nat_numeral All_less_Suc score_threshold_def)
  then have others: "\<forall>i. clears ?scores i \<longrightarrow> i = 5 \<or> i = 7"
  proof (intro allI impI)
    fix i :: int32_t
    assume all: "\<forall>k<17. score_threshold \<le> ?scores ! k \<longrightarrow> k = 5 \<or> k = 7"
      and "clears ?scores i"
    then have i: "0 \<le> sint i" "nat (sint i) < 17" "score_threshold \<le> ?scores ! nat (sint i)"
      by (simp_all add: clears_iff)
    with all have "nat (sint i) = 5 \<or> nat (sint i) = 7"
      by blast
    with i(1) have "sint i = 5 \<or> sint i = 7"
      by auto
    then show "i = 5 \<or> i = 7"
    proof
      assume "sint i = 5"
      then have "word_of_int (sint i) = (word_of_int 5 :: int32_t)"
        by (simp only:)
      then show ?thesis
        by simp
    next
      assume "sint i = 7"
      then have "word_of_int (sint i) = (word_of_int 7 :: int32_t)"
        by (simp only:)
      then show ?thesis
        by simp
    qed
  qed
  show ?thesis
    using pair_run
      Process_two_adjacent_joints [OF held stub_engine_Process scores coords size edge five seven
        others pair_run]
    by (simp add: vga_def pair_pose_def pose_of_def)
qed

subsection \<open>Subscripts\<close>

lemma Process_no_body:
  assumes "s_pose_engine s = Some e"
    and "PoseEngine_Process eng mat e = (kRetOk, pose, e')"
    and "pose_keypoint_scores pose = [] \<or> pose_keypoint_coords pose = []"
  shows "Process eng mat r s = Undefined IndexOutOfRange"
proof (cases "pose_keypoint_scores pose")
  case Nil
  with assms(1,2) show ?thesis
    by (simp add: Process_def subscript_def)
next
  case (Cons score_list other_scores)
  with assms(3) have "pose_keypoint_coords pose = []"
    by simp
  with Cons assms(1,2) show ?thesis
    by (simp add: Process_def subscript_def)
qed

text \<open>
  C9. The claim: the subscripts of \<^verbatim>\<open>Process\<close> are in range only under the
  precondition that the result has a body whose score and coordinate vectors each have
  at least 17 elements. \<^verbatim>\<open>Process\<close> does subscript without any check, but that
  precondition is neither enough nor needed. The second loop runs over the size of the
  coordinate vector and subscripts the score vector: with 17 scores and 18 coordinates
  it reads \<^verbatim>\<open>score_list[17]\<close>. And the coordinate vector is subscripted only for
  keypoints whose score clears the threshold, the second index of a table entry only
  when the first clears it: with 15 scores, all zero, and no coordinates every
  subscript is in range.
\<close>

theorem Process_bounds_counterexample:
  "Process (stub_engine long_coords_pose) vga no_result \<lparr>s_pose_engine = Some 1\<rparr>
     = Undefined IndexOutOfRange
   \<and> Process (stub_engine short_pose) vga no_result \<lparr>s_pose_engine = Some 1\<rparr>
     = Returns (Inr (), vga\<lparr>overlay := [DrawText 2 (0, 0)]\<rparr>,
         \<lparr>result_time_pre_process = 1, result_time_inference = 2,
          result_time_post_process = 3\<rparr>,
         \<lparr>s_pose_engine = Some 2\<rparr>)"
  by code_simp

text \<open>
  C9, amended. In bounds whenever the result has a body whose coordinate vector has at
  least 17 elements and whose score vector has at least as many as the coordinate
  vector.
\<close>

theorem Process_in_bounds:
  assumes "s_pose_engine s = Some e"
    and "PoseEngine_Process eng mat e = (kRetOk, pose, e')"
    and "pose_keypoint_scores pose = score_list # other_scores"
    and "pose_keypoint_coords pose = part_list # other_coords"
    and "17 \<le> length part_list"
    and "length part_list \<le> length score_list"
  shows "Process eng mat r s \<noteq> Undefined IndexOutOfRange"
proof -
  have sl: "subscript (pose_keypoint_scores pose) 0 = Returns score_list"
    and pl: "subscript (pose_keypoint_coords pose) 0 = Returns part_list"
    using assms(3,4) by (simp_all add: subscript_def)
  have table: "list_all (\<lambda>(a, b). 0 \<le> sint a \<and> sint a < 17 \<and> 0 \<le> sint b \<and> sint b < 17) jointLineList"
    by (simp add: jointLineList_def)
  have lines: "for_each (draw_joint_line score_list part_list) jointLineList mat
      \<noteq> Undefined IndexOutOfRange"
  proof (rule for_each_no_fault)
    fix jl m
    assume "jl \<in> set jointLineList"
    with table have "0 \<le> sint (fst jl) \<and> sint (fst jl) < 17 \<and> 0 \<le> sint (snd jl) \<and> sint (snd jl) < 17"
      by (auto simp: list_all_iff)
    with assms(5,6) show "draw_joint_line score_list part_list jl m \<noteq> Undefined IndexOutOfRange"
      by (intro draw_joint_line_in_bounds) auto
  qed
  have markers: "for_each (draw_keypoint score_list part_list)
      (indices (word_of_nat (length part_list))) m \<noteq> Undefined IndexOutOfRange" for m
  proof (rule for_each_no_fault)
    fix i m'
    assume "i \<in> set (indices (word_of_nat (length part_list)))"
    then have "0 \<le> sint i \<and> sint i < sint (word_of_nat (length part_list) :: int32_t)"
      by (rule indices_range)
    moreover have "sint (word_of_nat (length part_list) :: int32_t) \<le> int (length part_list)"
      by (rule sint_word_of_nat_le)
    ultimately have "0 \<le> sint i \<and> nat (sint i) < length part_list"
      by auto
    with assms(6) show "draw_keypoint score_list part_list i m' \<noteq> Undefined IndexOutOfRange"
      by (intro draw_keypoint_in_bounds) auto
  qed
  show ?thesis
    using assms(1,2) sl pl lines markers
    by (simp add: Process_def Let_def and_then_Undefined_iff for_loop_indices)
qed

theorem Process_in_bounds_witness:
  "17 \<le> length spread
   \<and> length spread \<le> length (hd (pose_keypoint_scores mixed_pose))
   \<and> Process (stub_engine mixed_pose) vga no_result \<lparr>s_pose_engine = Some 1\<rparr>
       \<noteq> Undefined IndexOutOfRange"
proof -
  have held: "s_pose_engine \<lparr>s_pose_engine = Some (1::nat)\<rparr> = Some 1"
    by simp
  have scores: "pose_keypoint_scores mixed_pose = hd (pose_keypoint_scores mixed_pose) # []"
    and coords: "pose_keypoint_coords mixed_pose = spread # []"
    by (simp_all add: mixed_pose_def pose_of_def)
  have long: "17 \<le> length spread"
    by (simp add: spread_def)
  have same: "length spread \<le> length (hd (pose_keypoint_scores mixed_pose))"
    by (simp add: spread_def mixed_pose_def pose_of_def)
  show ?thesis
    using long same
      Process_in_bounds [OF held stub_engine_Process scores coords long same, of vga no_result]
    by simp
qed

subsection \<open>Coordinates\<close>

text \<open>
  C1. The claim: a keypoint is scaled from the normalized \<open>[0, 1]\<close> space to pixels, x
  by the width and y by the height of the frame, so that \<open>(0.5, 0.5)\<close> is drawn at
  \<open>(W / 2, H / 2)\<close>. \<^verbatim>\<open>pose_engine.h\<close> documents the coordinates as
  \<^verbatim>\<open>[x, y] (0 - 1.0)\<close>. What the code does: \<^verbatim>\<open>Process\<close> converts the
  coordinates to \<^verbatim>\<open>int32_t\<close> as they are and never reads \<^verbatim>\<open>mat.cols\<close> or
  \<^verbatim>\<open>mat.rows\<close>. On a 640 by 480 frame, with all keypoints at \<open>(0.5, 0.5)\<close> and
  the keypoints 0 and 1 scoring 1, the line and both circles are drawn at \<open>(0, 0)\<close>,
  not at \<open>(320, 240)\<close>.
\<close>

theorem Process_draws_unscaled:
  "Process (stub_engine centre_pose) vga no_result \<lparr>s_pose_engine = Some 1\<rparr>
     = Returns (Inr (),
         vga\<lparr>overlay :=
           [cv_line (0, 0) (0, 0) (CreateCvColor 200 200 200) 2,
            cv_circle (0, 0) 5 (CreateCvColor 0 255 0) (- 1),
            cv_circle (0, 0) 5 (CreateCvColor 0 255 0) (- 1),
            DrawText 2 (0, 0)]\<rparr>,
         \<lparr>result_time_pre_process = 1, result_time_inference = 2,
          result_time_post_process = 3\<rparr>,
         \<lparr>s_pose_engine = Some 2\<rparr>)
   \<and> (cols vga div 2, rows vga div 2) = (320, 240)"
  by code_simp

end
